theory Spec2Isabelle
  imports Complex_Main
begin

section \<open>The thermal guard of the hardware monitor\<close>

text \<open>
  The thermal-shutdown route keeps one global \<open>ThermalConfig\<close> object, checks the
  temperatures of every poll against its thresholds (\<open>checkAndTriggerShutdown\<close>), and
  serves three handlers: \<open>GET\<close> reads the object, \<open>POST\<close> updates the policy fields
  and \<open>DELETE\<close> cancels a pending shutdown. Each call is modelled as one atomic step on
  the process state: the global object, the commands handed to \<open>execAsync\<close> so far, and
  the console. What the outside world decides (the clock, whether a command succeeds,
  whether the request body parses) is an argument of the step.
\<close>

subsection \<open>JavaScript numbers\<close>

text \<open>
  The code only stores and compares numbers, it never computes with them, so a number is
  modelled by its value: a real for a finite double, the two infinities and NaN. The
  comparisons follow IEEE 754: every comparison with NaN is false.
\<close>

datatype number = NaN | NegInf | Fin real | PosInf

fun js_ge :: "number \<Rightarrow> number \<Rightarrow> bool" where
  "js_ge NaN b = False"
| "js_ge a NaN = False"
| "js_ge PosInf b = True"
| "js_ge a NegInf = True"
| "js_ge (Fin x) (Fin y) = (y \<le> x)"
| "js_ge a b = False"

definition js_le :: "number \<Rightarrow> number \<Rightarrow> bool" where
  "js_le a b = js_ge b a"

definition js_eq :: "number \<Rightarrow> number \<Rightarrow> bool" where
  "js_eq a b = (a \<noteq> NaN \<and> a = b)"

subsection \<open>The configuration object and the process state\<close>

record ThermalConfig =
  enabled :: bool
  cpuThreshold :: number
  gpuThreshold :: number
  mbThreshold :: number
  shutdownDelay :: number
  triggered :: bool
  triggeredAt :: "int option"
  triggeredBy :: "string option"
  triggeredTemp :: "number option"

definition defaultConfig :: ThermalConfig where
  "defaultConfig =
     \<lparr>enabled = False, cpuThreshold = Fin 80, gpuThreshold = Fin 85, mbThreshold = Fin 75,
      shutdownDelay = Fin 60, triggered = False, triggeredAt = None, triggeredBy = None,
      triggeredTemp = None\<rparr>"

text \<open>
  A command line handed to \<open>execAsync\<close>. \<open>Shutdown d r t th\<close> stands for
  \<open>shutdown /s /t d /c "THERMAL PROTECTION: R temperature reached t (threshold: th) ..."\<close>
  with \<open>R\<close> the upper-cased reason \<open>r\<close>; \<open>Abort\<close> stands for \<open>shutdown /a\<close>.
\<close>

datatype command = Shutdown number string number number | Abort

datatype log_event =
    Warn_threshold_exceeded
  | Warn_shutdown_issued
  | Error_shutdown_failed
  | Log_shutdown_cancelled
  | Warn_abort_failed

record world =
  thermalConfig :: ThermalConfig
  execs :: "command list"
  console :: "log_event list"

definition initial_world :: world where
  "initial_world = \<lparr>thermalConfig = defaultConfig, execs = [], console = []\<rparr>"

subsection \<open>checkAndTriggerShutdown\<close>

text \<open>The local variables \<open>shouldShutdown\<close>, \<open>reason\<close> and \<open>triggerTemp\<close>.\<close>

record locals =
  shouldShutdown :: bool
  reason :: string
  triggerTemp :: number

definition init_locals :: locals where
  "init_locals = \<lparr>shouldShutdown = False, reason = [], triggerTemp = Fin 0\<rparr>"

text \<open>\<open>temp !== null && temp >= threshold\<close>\<close>

definition meets :: "number option \<Rightarrow> number \<Rightarrow> bool" where
  "meets temp threshold = (case temp of None \<Rightarrow> False | Some t \<Rightarrow> js_ge t threshold)"

text \<open>The three \<open>if\<close> statements, in the order of the source. A non-empty string is truthy.\<close>

definition check_cpu :: "ThermalConfig \<Rightarrow> number option \<Rightarrow> locals \<Rightarrow> locals" where
  "check_cpu config cpuTemp l =
     (case cpuTemp of
        None \<Rightarrow> l
      | Some t \<Rightarrow>
          if js_ge t (cpuThreshold config)
          then l\<lparr>shouldShutdown := True, reason := ''cpu'', triggerTemp := t\<rparr>
          else l)"

definition check_gpu :: "ThermalConfig \<Rightarrow> number option \<Rightarrow> locals \<Rightarrow> locals" where
  "check_gpu config gpuTemp l =
     (case gpuTemp of
        None \<Rightarrow> l
      | Some t \<Rightarrow>
          if js_ge t (gpuThreshold config)
          then l\<lparr>shouldShutdown := True,
                 reason := (if reason l \<noteq> [] then reason l @ ''+gpu'' else ''gpu''),
                 triggerTemp := t\<rparr>
          else l)"

definition check_mb :: "ThermalConfig \<Rightarrow> number option \<Rightarrow> locals \<Rightarrow> locals" where
  "check_mb config mbTemp l =
     (case mbTemp of
        None \<Rightarrow> l
      | Some t \<Rightarrow>
          if js_ge t (mbThreshold config)
          then l\<lparr>shouldShutdown := True,
                 reason := (if reason l \<noteq> [] then reason l @ ''+mb'' else ''mb''),
                 triggerTemp := t\<rparr>
          else l)"

text \<open>The three statements in sequence, from the initial values of the locals.\<close>

definition run_checks ::
  "ThermalConfig \<Rightarrow> number option \<Rightarrow> number option \<Rightarrow> number option \<Rightarrow> locals" where
  "run_checks config cpuTemp gpuTemp mbTemp =
     check_mb config mbTemp (check_gpu config gpuTemp (check_cpu config cpuTemp init_locals))"

text \<open>\<open>s.includes(t)\<close>: \<open>t\<close> occurs in \<open>s\<close> as a contiguous substring.\<close>

fun str_includes :: "string \<Rightarrow> string \<Rightarrow> bool" where
  "str_includes [] t = (t = [])"
| "str_includes (c # s) t = (take (length t) (c # s) = t \<or> str_includes s t)"

text \<open>
  The command of the \<open>try\<close> block. The threshold quoted in its message is the CPU
  threshold when the reason contains \<open>cpu\<close>, the GPU threshold otherwise.
\<close>

definition shutdown_command :: "ThermalConfig \<Rightarrow> locals \<Rightarrow> command" where
  "shutdown_command config l =
     Shutdown (shutdownDelay config) (reason l) (triggerTemp l)
       (if str_includes (reason l) ''cpu'' then cpuThreshold config else gpuThreshold config)"

text \<open>
  The function returns at once when the guard is disabled or already triggered. Otherwise
  it runs the three checks and, when one of them matched, writes the incident with
  \<open>setConfig\<close> and only then awaits the shutdown command; a rejected command is caught
  and logged. \<open>now\<close> is the value of \<open>Date.now()\<close>, \<open>exec_ok\<close> tells whether the
  command resolves.
\<close>

definition checkAndTriggerShutdown ::
  "int \<Rightarrow> bool \<Rightarrow> number option \<Rightarrow> number option \<Rightarrow> number option \<Rightarrow> world \<Rightarrow> world" where
  "checkAndTriggerShutdown now exec_ok cpuTemp gpuTemp mbTemp w =
     (let config = thermalConfig w in
      if \<not> enabled config \<or> triggered config then w
      else
        let l = run_checks config cpuTemp gpuTemp mbTemp
        in if shouldShutdown l
           then w\<lparr>thermalConfig :=
                     config\<lparr>triggered := True, triggeredAt := Some now,
                            triggeredBy := Some (reason l),
                            triggeredTemp := Some (triggerTemp l)\<rparr>,
                   execs := execs w @ [shutdown_command config l],
                   console := console w @
                     [Warn_threshold_exceeded,
                      if exec_ok then Warn_shutdown_issued else Error_shutdown_failed]\<rparr>
           else w)"

text \<open>
  The poller calls the function once per poll. A poll is the clock, the outcome of the
  command and the three temperatures.
\<close>

type_synonym poll = "int \<times> bool \<times> number option \<times> number option \<times> number option"

fun evaluate :: "poll \<Rightarrow> world \<Rightarrow> world" where
  "evaluate (now, exec_ok, cpuTemp, gpuTemp, mbTemp) w =
     checkAndTriggerShutdown now exec_ok cpuTemp gpuTemp mbTemp w"

fun evaluate_all :: "poll list \<Rightarrow> world \<Rightarrow> world" where
  "evaluate_all [] w = w"
| "evaluate_all (p # ps) w = evaluate_all ps (evaluate p w)"

subsection \<open>The request handlers\<close>

text \<open>
  The value \<open>request.json()\<close> resolves to. The members of an object are kept in the
  order of the body text; of two members with one key the later one is the property.
\<close>

datatype json =
    JNull
  | JBool bool
  | JNum number
  | JStr string
  | JArr "json list"
  | JObj "(string \<times> json) list"

datatype exn = TypeError

text \<open>
  \<open>body.k\<close> for the five keys the handler reads: reading a property of \<open>null\<close>
  throws, a boolean, number, string or array has none of these properties
  (\<open>undefined\<close>, here \<open>None\<close>).
\<close>

fun get_prop :: "json \<Rightarrow> string \<Rightarrow> exn + json option" where
  "get_prop JNull k = Inl TypeError"
| "get_prop (JObj members) k = Inr (map_of (rev members) k)"
| "get_prop v k = Inr None"

text \<open>\<open>typeof v === 'number' && v >= lo && v <= hi\<close>\<close>

fun number_in :: "json option \<Rightarrow> real \<Rightarrow> real \<Rightarrow> number option" where
  "number_in (Some (JNum x)) lo hi =
     (if js_ge x (Fin lo) \<and> js_le x (Fin hi) then Some x else None)"
| "number_in v lo hi = None"

text \<open>The five guarded \<open>setConfig\<close> calls of \<open>POST\<close>.\<close>

definition set_enabled :: "json \<Rightarrow> ThermalConfig \<Rightarrow> exn + ThermalConfig" where
  "set_enabled body c =
     (case get_prop body ''enabled'' of
        Inl e \<Rightarrow> Inl e
      | Inr (Some (JBool b)) \<Rightarrow> Inr (c\<lparr>enabled := b\<rparr>)
      | Inr _ \<Rightarrow> Inr c)"

definition set_cpuThreshold :: "json \<Rightarrow> ThermalConfig \<Rightarrow> exn + ThermalConfig" where
  "set_cpuThreshold body c =
     (case get_prop body ''cpuThreshold'' of
        Inl e \<Rightarrow> Inl e
      | Inr v \<Rightarrow> (case number_in v 30 120 of
                    Some x \<Rightarrow> Inr (c\<lparr>cpuThreshold := x\<rparr>)
                  | None \<Rightarrow> Inr c))"

definition set_gpuThreshold :: "json \<Rightarrow> ThermalConfig \<Rightarrow> exn + ThermalConfig" where
  "set_gpuThreshold body c =
     (case get_prop body ''gpuThreshold'' of
        Inl e \<Rightarrow> Inl e
      | Inr v \<Rightarrow> (case number_in v 30 120 of
                    Some x \<Rightarrow> Inr (c\<lparr>gpuThreshold := x\<rparr>)
                  | None \<Rightarrow> Inr c))"

definition set_mbThreshold :: "json \<Rightarrow> ThermalConfig \<Rightarrow> exn + ThermalConfig" where
  "set_mbThreshold body c =
     (case get_prop body ''mbThreshold'' of
        Inl e \<Rightarrow> Inl e
      | Inr v \<Rightarrow> (case number_in v 30 120 of
                    Some x \<Rightarrow> Inr (c\<lparr>mbThreshold := x\<rparr>)
                  | None \<Rightarrow> Inr c))"

definition set_shutdownDelay :: "json \<Rightarrow> ThermalConfig \<Rightarrow> exn + ThermalConfig" where
  "set_shutdownDelay body c =
     (case get_prop body ''shutdownDelay'' of
        Inl e \<Rightarrow> Inl e
      | Inr v \<Rightarrow> (case number_in v 10 300 of
                    Some x \<Rightarrow> Inr (c\<lparr>shutdownDelay := x\<rparr>)
                  | None \<Rightarrow> Inr c))"

text \<open>
  Statements run in order on the global object; a statement that throws leaves the
  object as the statements before it made it.
\<close>

fun run_steps ::
  "(ThermalConfig \<Rightarrow> exn + ThermalConfig) list \<Rightarrow> ThermalConfig \<Rightarrow> exn option \<times> ThermalConfig" where
  "run_steps [] c = (None, c)"
| "run_steps (s # ss) c =
     (case s c of Inl e \<Rightarrow> (Some e, c) | Inr c' \<Rightarrow> run_steps ss c')"

datatype response = Json200 ThermalConfig | Error400

definition GET :: "world \<Rightarrow> response \<times> world" where
  "GET w = (Json200 (thermalConfig w), w)"

text \<open>
  \<open>request\<close> is \<open>None\<close> when \<open>request.json()\<close> rejects. Everything thrown inside
  the \<open>try\<close> block ends in the 400 response.
\<close>

definition POST :: "json option \<Rightarrow> world \<Rightarrow> response \<times> world" where
  "POST request w =
     (case request of
        None \<Rightarrow> (Error400, w)
      | Some body \<Rightarrow>
          (case run_steps [set_enabled body, set_cpuThreshold body, set_gpuThreshold body,
                           set_mbThreshold body, set_shutdownDelay body] (thermalConfig w) of
             (None, c) \<Rightarrow> (Json200 c, w\<lparr>thermalConfig := c\<rparr>)
           | (Some e, c) \<Rightarrow> (Error400, w\<lparr>thermalConfig := c\<rparr>)))"

text \<open>
  \<open>abort_ok\<close> tells whether \<open>shutdown /a\<close> resolves; a rejection is caught and logged.
  The command is awaited first, then the incident fields are reset and the object is
  returned. The handler is one step: no other call runs while the command is awaited.
\<close>

definition DELETE :: "bool \<Rightarrow> world \<Rightarrow> response \<times> world" where
  "DELETE abort_ok w =
     (let c = (thermalConfig w)\<lparr>triggered := False, triggeredAt := None,
                                 triggeredBy := None, triggeredTemp := None\<rparr>
      in (Json200 c,
          w\<lparr>thermalConfig := c,
            execs := execs w @ [Abort],
            console := console w @
              [if abort_ok then Log_shutdown_cancelled else Warn_abort_failed]\<rparr>))"

subsection \<open>Vocabulary of the properties\<close>

text \<open>
  Some metric is present and at or above its threshold: the condition under which one of
  the three \<open>if\<close> statements sets \<open>shouldShutdown\<close>.
\<close>

definition trips ::
  "ThermalConfig \<Rightarrow> number option \<Rightarrow> number option \<Rightarrow> number option \<Rightarrow> bool" where
  "trips config cpuTemp gpuTemp mbTemp =
     (meets cpuTemp (cpuThreshold config) \<or> meets gpuTemp (gpuThreshold config) \<or>
      meets mbTemp (mbThreshold config))"

text \<open>
  The specification's reading of a tick: the metrics in the fixed order cpu, gpu, mb, each
  with its tag, its reading and its threshold; the tripped ones are those whose reading is
  present and at or above the threshold; tags are joined by a separator.
\<close>

definition metrics ::
  "ThermalConfig \<Rightarrow> number option \<Rightarrow> number option \<Rightarrow> number option \<Rightarrow>
   (string \<times> number option \<times> number) list" where
  "metrics config cpuTemp gpuTemp mbTemp =
     [(''cpu'', cpuTemp, cpuThreshold config),
      (''gpu'', gpuTemp, gpuThreshold config),
      (''mb'', mbTemp, mbThreshold config)]"

definition tripped ::
  "ThermalConfig \<Rightarrow> number option \<Rightarrow> number option \<Rightarrow> number option \<Rightarrow>
   (string \<times> number option \<times> number) list" where
  "tripped config cpuTemp gpuTemp mbTemp =
     filter (\<lambda>(tag, temp, threshold). meets temp threshold)
       (metrics config cpuTemp gpuTemp mbTemp)"

fun join :: "string \<Rightarrow> string list \<Rightarrow> string" where
  "join sep [] = []"
| "join sep [x] = x"
| "join sep (x # y # ys) = x @ sep @ join sep (y # ys)"

text \<open>The number of shutdown requests handed to the operating system so far.\<close>

definition shutdown_requests :: "world \<Rightarrow> nat" where
  "shutdown_requests w = length (filter (\<lambda>cmd. cmd \<noteq> Abort) (execs w))"

text \<open>
  The specification's reading of a policy update: the member of the body with a given
  name, if the body is an object that has one; a numeric member inside its range replaces
  the prior value, anything else keeps it.
\<close>

fun member :: "json \<Rightarrow> string \<Rightarrow> json option" where
  "member (JObj members) k = map_of (rev members) k"
| "member v k = None"

definition valid_or :: "json option \<Rightarrow> real \<Rightarrow> real \<Rightarrow> number \<Rightarrow> number" where
  "valid_or v lo hi prior =
     (case v of
        Some (JNum (Fin x)) \<Rightarrow> if lo \<le> x \<and> x \<le> hi then Fin x else prior
      | _ \<Rightarrow> prior)"

definition spec_update :: "ThermalConfig \<Rightarrow> json \<Rightarrow> ThermalConfig" where
  "spec_update c body =
     c\<lparr>enabled := (case member body ''enabled'' of Some (JBool b) \<Rightarrow> b | _ \<Rightarrow> enabled c),
       cpuThreshold := valid_or (member body ''cpuThreshold'') 30 120 (cpuThreshold c),
       gpuThreshold := valid_or (member body ''gpuThreshold'') 30 120 (gpuThreshold c),
       mbThreshold := valid_or (member body ''mbThreshold'') 30 120 (mbThreshold c),
       shutdownDelay := valid_or (member body ''shutdownDelay'') 10 300 (shutdownDelay c)\<rparr>"

definition recognized :: "string set" where
  "recognized =
     {''enabled'', ''cpuThreshold'', ''gpuThreshold'', ''mbThreshold'', ''shutdownDelay''}"

text \<open>The incident is either absent as a whole or flagged.\<close>

definition incident_inv :: "ThermalConfig \<Rightarrow> bool" where
  "incident_inv c =
     ((\<not> triggered c) = (triggeredAt c = None \<and> triggeredBy c = None \<and> triggeredTemp c = None))"

text \<open>The state after the operator has enabled the guard on a fresh process.\<close>

definition armed_world :: world where
  "armed_world = snd (POST (Some (JObj [(''enabled'', JBool True)])) initial_world)"

section \<open>Properties\<close>

subsection \<open>The checks\<close>

lemma shouldShutdown_run_checks:
  "shouldShutdown (run_checks c cpu gpu mb) = trips c cpu gpu mb"
  by (auto simp: run_checks_def check_mb_def check_gpu_def check_cpu_def init_locals_def
      trips_def meets_def split: option.splits)

lemma tripped_nonempty: "tripped c cpu gpu mb \<noteq> [] \<longleftrightarrow> trips c cpu gpu mb"
  by (auto simp: tripped_def metrics_def trips_def)

lemma reason_run_checks:
  "reason (run_checks c cpu gpu mb) = join ''+'' (map fst (tripped c cpu gpu mb))"
  by (auto simp: run_checks_def check_mb_def check_gpu_def check_cpu_def init_locals_def
      tripped_def metrics_def meets_def split: option.splits)

lemma triggerTemp_run_checks:
  "trips c cpu gpu mb \<Longrightarrow>
   Some (triggerTemp (run_checks c cpu gpu mb)) =
     (if meets mb (mbThreshold c) then mb
      else if meets gpu (gpuThreshold c) then gpu else cpu)"
  by (auto simp: run_checks_def check_mb_def check_gpu_def check_cpu_def init_locals_def
      trips_def meets_def split: option.splits)

lemma triggerTemp_last_tripped:
  "trips c cpu gpu mb \<Longrightarrow>
   Some (triggerTemp (run_checks c cpu gpu mb)) = fst (snd (last (tripped c cpu gpu mb)))"
  by (auto simp: run_checks_def check_mb_def check_gpu_def check_cpu_def init_locals_def
      tripped_def metrics_def trips_def meets_def split: option.splits)

lemma check_noop:
  "\<not> enabled (thermalConfig w) \<or> triggered (thermalConfig w) \<or>
   \<not> trips (thermalConfig w) cpu gpu mb \<Longrightarrow>
   checkAndTriggerShutdown now ok cpu gpu mb w = w"
  by (auto simp: checkAndTriggerShutdown_def Let_def shouldShutdown_run_checks)

lemma check_fires:
  "enabled (thermalConfig w) \<Longrightarrow> \<not> triggered (thermalConfig w) \<Longrightarrow>
   trips (thermalConfig w) cpu gpu mb \<Longrightarrow>
   checkAndTriggerShutdown now ok cpu gpu mb w =
     w\<lparr>thermalConfig :=
         (thermalConfig w)\<lparr>triggered := True, triggeredAt := Some now,
            triggeredBy := Some (reason (run_checks (thermalConfig w) cpu gpu mb)),
            triggeredTemp := Some (triggerTemp (run_checks (thermalConfig w) cpu gpu mb))\<rparr>,
       execs := execs w @
         [shutdown_command (thermalConfig w) (run_checks (thermalConfig w) cpu gpu mb)],
       console := console w @
         [Warn_threshold_exceeded,
          if ok then Warn_shutdown_issued else Error_shutdown_failed]\<rparr>"
  by (simp add: checkAndTriggerShutdown_def Let_def shouldShutdown_run_checks)

lemma evaluate_all_triggered:
  "triggered (thermalConfig w) \<Longrightarrow> evaluate_all ps w = w"
  by (induction ps arbitrary: w) (auto simp: check_noop)

subsection \<open>The policy update\<close>

lemma get_prop_member: "body \<noteq> JNull \<Longrightarrow> get_prop body k = Inr (member body k)"
  by (cases body) simp_all

lemma number_in_valid_or:
  "(case number_in v lo hi of Some x \<Rightarrow> x | None \<Rightarrow> prior) = valid_or v lo hi prior"
proof (cases v)
  case None
  then show ?thesis by (simp add: valid_or_def)
next
  case (Some j)
  show ?thesis
  proof (cases j)
    case (JNum x)
    with Some show ?thesis by (cases x) (simp_all add: valid_or_def js_le_def)
  qed (simp_all add: Some valid_or_def)
qed

lemma set_enabled_eq:
  "body \<noteq> JNull \<Longrightarrow>
   set_enabled body c =
     Inr (c\<lparr>enabled := (case member body ''enabled'' of Some (JBool b) \<Rightarrow> b | _ \<Rightarrow> enabled c)\<rparr>)"
  by (simp add: set_enabled_def get_prop_member split: option.splits json.splits)

lemma set_cpuThreshold_eq:
  "body \<noteq> JNull \<Longrightarrow>
   set_cpuThreshold body c =
     Inr (c\<lparr>cpuThreshold := valid_or (member body ''cpuThreshold'') 30 120 (cpuThreshold c)\<rparr>)"
  unfolding number_in_valid_or [symmetric]
  by (simp add: set_cpuThreshold_def get_prop_member split: option.splits)

lemma set_gpuThreshold_eq:
  "body \<noteq> JNull \<Longrightarrow>
   set_gpuThreshold body c =
     Inr (c\<lparr>gpuThreshold := valid_or (member body ''gpuThreshold'') 30 120 (gpuThreshold c)\<rparr>)"
  unfolding number_in_valid_or [symmetric]
  by (simp add: set_gpuThreshold_def get_prop_member split: option.splits)

lemma set_mbThreshold_eq:
  "body \<noteq> JNull \<Longrightarrow>
   set_mbThreshold body c =
     Inr (c\<lparr>mbThreshold := valid_or (member body ''mbThreshold'') 30 120 (mbThreshold c)\<rparr>)"
  unfolding number_in_valid_or [symmetric]
  by (simp add: set_mbThreshold_def get_prop_member split: option.splits)

lemma set_shutdownDelay_eq:
  "body \<noteq> JNull \<Longrightarrow>
   set_shutdownDelay body c =
     Inr (c\<lparr>shutdownDelay := valid_or (member body ''shutdownDelay'') 10 300 (shutdownDelay c)\<rparr>)"
  unfolding number_in_valid_or [symmetric]
  by (simp add: set_shutdownDelay_def get_prop_member split: option.splits)

lemma POST_nonnull:
  "body \<noteq> JNull \<Longrightarrow>
   POST (Some body) w =
     (Json200 (spec_update (thermalConfig w) body),
      w\<lparr>thermalConfig := spec_update (thermalConfig w) body\<rparr>)"
  by (simp add: POST_def set_enabled_eq set_cpuThreshold_eq set_gpuThreshold_eq
      set_mbThreshold_eq set_shutdownDelay_eq spec_update_def)

lemma POST_null: "POST (Some JNull) w = (Error400, w)"
  by (simp add: POST_def set_enabled_def)

lemma POST_unparsed: "POST None w = (Error400, w)"
  by (simp add: POST_def)

lemma member_unknown:
  "k \<noteq> k' \<Longrightarrow> member (JObj (ms @ (k, v) # ms')) k' = member (JObj (ms @ ms')) k'"
  by (simp add: map_add_def split: option.splits)

lemma spec_update_unknown:
  assumes "k \<notin> recognized"
  shows "spec_update c (JObj (ms @ (k, v) # ms')) = spec_update c (JObj (ms @ ms'))"
proof -
  from assms have "k \<noteq> ''enabled''" "k \<noteq> ''cpuThreshold''" "k \<noteq> ''gpuThreshold''"
    "k \<noteq> ''mbThreshold''" "k \<noteq> ''shutdownDelay''"
    by (auto simp: recognized_def)
  then show ?thesis
    by (simp only: spec_update_def member_unknown simp_thms)
qed

lemma POST_frame:
  "triggered (thermalConfig (snd (POST request w))) = triggered (thermalConfig w) \<and>
   triggeredAt (thermalConfig (snd (POST request w))) = triggeredAt (thermalConfig w) \<and>
   triggeredBy (thermalConfig (snd (POST request w))) = triggeredBy (thermalConfig w) \<and>
   triggeredTemp (thermalConfig (snd (POST request w))) = triggeredTemp (thermalConfig w) \<and>
   execs (snd (POST request w)) = execs w \<and> console (snd (POST request w)) = console w"
proof (cases request)
  case None
  then show ?thesis by (simp add: POST_unparsed)
next
  case (Some body)
  show ?thesis
  proof (cases "body = JNull")
    case True
    with Some show ?thesis by (simp add: POST_null)
  next
    case False
    with Some show ?thesis by (simp add: POST_nonnull spec_update_def)
  qed
qed

subsection \<open>Concrete states\<close>

lemma armed_world_eq:
  "armed_world =
     \<lparr>thermalConfig =
        \<lparr>enabled = True, cpuThreshold = Fin 80, gpuThreshold = Fin 85, mbThreshold = Fin 75,
         shutdownDelay = Fin 60, triggered = False, triggeredAt = None, triggeredBy = None,
         triggeredTemp = None\<rparr>,
      execs = [], console = []\<rparr>"
  by (simp add: armed_world_def POST_nonnull spec_update_def valid_or_def initial_world_def
      defaultConfig_def)

lemmas check_defs =
  checkAndTriggerShutdown_def run_checks_def check_cpu_def check_gpu_def check_mb_def
  init_locals_def shutdown_command_def trips_def meets_def

subsection \<open>The triggering call in full\<close>

lemma reason_includes_cpu:
  "str_includes (reason (run_checks c cpu gpu mb)) ''cpu'' = meets cpu (cpuThreshold c)"
  by (auto simp: run_checks_def check_mb_def check_gpu_def check_cpu_def init_locals_def
      meets_def split: option.splits)

lemma check_fires_explicit:
  assumes "enabled (thermalConfig w)" and "\<not> triggered (thermalConfig w)"
    and "trips (thermalConfig w) cpu gpu mb"
  shows "\<exists>x. fst (snd (last (tripped (thermalConfig w) cpu gpu mb))) = Some x \<and>
           checkAndTriggerShutdown now ok cpu gpu mb w =
             w\<lparr>thermalConfig :=
                 (thermalConfig w)\<lparr>triggered := True, triggeredAt := Some now,
                    triggeredBy :=
                      Some (join ''+'' (map fst (tripped (thermalConfig w) cpu gpu mb))),
                    triggeredTemp := Some x\<rparr>,
               execs := execs w @
                 [Shutdown (shutdownDelay (thermalConfig w))
                    (join ''+'' (map fst (tripped (thermalConfig w) cpu gpu mb))) x
                    (if meets cpu (cpuThreshold (thermalConfig w))
                     then cpuThreshold (thermalConfig w) else gpuThreshold (thermalConfig w))],
               console := console w @
                 [Warn_threshold_exceeded,
                  if ok then Warn_shutdown_issued else Error_shutdown_failed]\<rparr>"
proof (intro exI conjI)
  show "fst (snd (last (tripped (thermalConfig w) cpu gpu mb))) =
      Some (triggerTemp (run_checks (thermalConfig w) cpu gpu mb))"
    by (rule triggerTemp_last_tripped [OF assms(3), symmetric])
  show "checkAndTriggerShutdown now ok cpu gpu mb w =
             w\<lparr>thermalConfig :=
                 (thermalConfig w)\<lparr>triggered := True, triggeredAt := Some now,
                    triggeredBy :=
                      Some (join ''+'' (map fst (tripped (thermalConfig w) cpu gpu mb))),
                    triggeredTemp := Some (triggerTemp (run_checks (thermalConfig w) cpu gpu mb))\<rparr>,
               execs := execs w @
                 [Shutdown (shutdownDelay (thermalConfig w))
                    (join ''+'' (map fst (tripped (thermalConfig w) cpu gpu mb)))
                    (triggerTemp (run_checks (thermalConfig w) cpu gpu mb))
                    (if meets cpu (cpuThreshold (thermalConfig w))
                     then cpuThreshold (thermalConfig w) else gpuThreshold (thermalConfig w))],
               console := console w @
                 [Warn_threshold_exceeded,
                  if ok then Warn_shutdown_issued else Error_shutdown_failed]\<rparr>"
    unfolding check_fires [OF assms] shutdown_command_def reason_includes_cpu
    unfolding reason_run_checks ..
qed

lemma js_eq_ge: "js_eq a b \<Longrightarrow> js_ge a b"
  by (cases a) (auto simp: js_eq_def)

lemma metric_trips:
  assumes "(tag, Some t, threshold) \<in> set (metrics c cpu gpu mb)" and "js_ge t threshold"
  shows "(tag, Some t, threshold) \<in> set (tripped c cpu gpu mb) \<and> trips c cpu gpu mb"
proof -
  from assms have "(tag, Some t, threshold) \<in> set (tripped c cpu gpu mb)"
    by (simp add: tripped_def meets_def)
  moreover from this have "tripped c cpu gpu mb \<noteq> []" by auto
  ultimately show ?thesis by (simp add: tripped_nonempty)
qed

section \<open>The claims\<close>

subsection \<open>C1: which temperature the incident records\<close>

text \<open>
  C1, as stated, asks that with several metrics at or above their thresholds in one tick
  the incident records the value of the first one in the order cpu, gpu, mb. On an enabled
  guard with the default thresholds, cpu = 90 and gpu = 95 both trip, the first tripped value
  is 90, and the incident records 95.
\<close>

theorem C1_first_match_counterexample:
  "meets (Some (Fin 90)) (cpuThreshold (thermalConfig armed_world)) \<and>
   meets (Some (Fin 95)) (gpuThreshold (thermalConfig armed_world)) \<and>
   fst (snd (hd (tripped (thermalConfig armed_world) (Some (Fin 90)) (Some (Fin 95)) None)))
     = Some (Fin 90) \<and>
   triggeredTemp (thermalConfig
     (checkAndTriggerShutdown 0 True (Some (Fin 90)) (Some (Fin 95)) None armed_world))
     = Some (Fin 95) \<and>
   triggeredTemp (thermalConfig
     (checkAndTriggerShutdown 0 True (Some (Fin 90)) (Some (Fin 95)) None armed_world))
     \<noteq> Some (Fin 90)"
  by (simp add: armed_world_eq check_defs tripped_def metrics_def)

text \<open>
  C1, as amended: in every tick that trips an enabled, untriggered guard, the incident's
  \<open>triggeredTemp\<close> is the value of the metric that matched last in the order cpu, gpu,
  mb: the mb value if mb tripped, else the gpu value if gpu tripped, else the cpu value.
  It is the value of the last entry of the tripped metrics, not of the first and not the
  maximum.
\<close>

theorem C1_triggeredTemp_last_match:
  assumes "enabled (thermalConfig w)" and "\<not> triggered (thermalConfig w)"
    and "trips (thermalConfig w) cpu gpu mb"
  shows "triggeredTemp (thermalConfig (checkAndTriggerShutdown now ok cpu gpu mb w)) =
           (if meets mb (mbThreshold (thermalConfig w)) then mb
            else if meets gpu (gpuThreshold (thermalConfig w)) then gpu else cpu) \<and>
         triggeredTemp (thermalConfig (checkAndTriggerShutdown now ok cpu gpu mb w)) =
           fst (snd (last (tripped (thermalConfig w) cpu gpu mb)))"
proof -
  have eq: "triggeredTemp (thermalConfig (checkAndTriggerShutdown now ok cpu gpu mb w)) =
    Some (triggerTemp (run_checks (thermalConfig w) cpu gpu mb))"
    using assms by (simp add: check_fires)
  show ?thesis
    unfolding eq
    by (rule conjI [OF triggerTemp_run_checks [OF assms(3)] triggerTemp_last_tripped [OF assms(3)]])
qed

text \<open>The amended C1 at cpu = 90, gpu = 95 on the enabled default policy.\<close>

theorem C1_triggeredTemp_last_match_witness:
  "enabled (thermalConfig armed_world) \<and> \<not> triggered (thermalConfig armed_world) \<and>
   trips (thermalConfig armed_world) (Some (Fin 90)) (Some (Fin 95)) None \<and>
   triggeredTemp (thermalConfig
     (checkAndTriggerShutdown 0 True (Some (Fin 90)) (Some (Fin 95)) None armed_world))
     = Some (Fin 95)"
proof -
  have h: "enabled (thermalConfig armed_world)" "\<not> triggered (thermalConfig armed_world)"
    "trips (thermalConfig armed_world) (Some (Fin 90)) (Some (Fin 95)) None"
    by (simp_all add: armed_world_eq trips_def meets_def)
  from C1_triggeredTemp_last_match [OF h, of 0 True] h show ?thesis
    by (simp add: armed_world_eq meets_def)
qed

subsection \<open>C2: one shutdown request per incident\<close>

text \<open>
  C2: once the guard is triggered, any sequence of further evaluations leaves the whole
  process state as it is: the incident record is not overwritten and no command is issued.
  In particular, when an evaluation trips an enabled, untriggered guard, that evaluation
  followed by any further evaluations (tripping or not) ends in the state the first one
  produced, with exactly one shutdown command added.
\<close>

theorem C2_triggered_evaluate_noop:
  "(triggered (thermalConfig w) \<longrightarrow> evaluate_all ps w = w) \<and>
   (enabled (thermalConfig w) \<and> \<not> triggered (thermalConfig w) \<and>
    trips (thermalConfig w) cpu gpu mb \<longrightarrow>
      evaluate_all ((now, ok, cpu, gpu, mb) # ps) w =
        checkAndTriggerShutdown now ok cpu gpu mb w \<and>
      execs (evaluate_all ((now, ok, cpu, gpu, mb) # ps) w) =
        execs w @ [shutdown_command (thermalConfig w) (run_checks (thermalConfig w) cpu gpu mb)] \<and>
      shutdown_requests (evaluate_all ((now, ok, cpu, gpu, mb) # ps) w) =
        shutdown_requests w + 1)"
proof (intro conjI impI)
  assume "triggered (thermalConfig w)"
  then show "evaluate_all ps w = w" by (rule evaluate_all_triggered)
next
  assume a: "enabled (thermalConfig w) \<and> \<not> triggered (thermalConfig w) \<and>
    trips (thermalConfig w) cpu gpu mb"
  let ?w' = "checkAndTriggerShutdown now ok cpu gpu mb w"
  from a have trig: "triggered (thermalConfig ?w')" by (simp add: check_fires)
  show all: "evaluate_all ((now, ok, cpu, gpu, mb) # ps) w = ?w'"
    by (simp add: evaluate_all_triggered [OF trig])
  from a show "execs (evaluate_all ((now, ok, cpu, gpu, mb) # ps) w) =
    execs w @ [shutdown_command (thermalConfig w) (run_checks (thermalConfig w) cpu gpu mb)]"
    unfolding all by (simp add: check_fires)
  from a show "shutdown_requests (evaluate_all ((now, ok, cpu, gpu, mb) # ps) w) =
    shutdown_requests w + 1"
    unfolding all by (simp add: check_fires shutdown_requests_def shutdown_command_def)
qed

text \<open>
  C2 at two consecutive polls with cpu = 90 and cpu = 91 on the enabled default policy:
  one shutdown command, and the second poll changes nothing.
\<close>

theorem C2_triggered_evaluate_noop_witness:
  "enabled (thermalConfig armed_world) \<and> \<not> triggered (thermalConfig armed_world) \<and>
   trips (thermalConfig armed_world) (Some (Fin 90)) None None \<and>
   triggered (thermalConfig
     (checkAndTriggerShutdown 1000 True (Some (Fin 90)) None None armed_world)) \<and>
   evaluate_all [(1000, True, Some (Fin 90), None, None), (4000, True, Some (Fin 91), None, None)]
     armed_world =
     checkAndTriggerShutdown 1000 True (Some (Fin 90)) None None armed_world \<and>
   execs (evaluate_all
     [(1000, True, Some (Fin 90), None, None), (4000, True, Some (Fin 91), None, None)]
     armed_world) = [Shutdown (Fin 60) ''cpu'' (Fin 90) (Fin 80)] \<and>
   evaluate_all [(4000, True, Some (Fin 91), None, None)]
     (checkAndTriggerShutdown 1000 True (Some (Fin 90)) None None armed_world) =
     checkAndTriggerShutdown 1000 True (Some (Fin 90)) None None armed_world"
proof -
  have h: "enabled (thermalConfig armed_world) \<and> \<not> triggered (thermalConfig armed_world) \<and>
    trips (thermalConfig armed_world) (Some (Fin 90)) None None"
    by (simp add: armed_world_eq trips_def meets_def)
  have t: "triggered (thermalConfig
     (checkAndTriggerShutdown 1000 True (Some (Fin 90)) None None armed_world))"
    by (simp add: armed_world_eq check_defs)
  from C2_triggered_evaluate_noop
    [of armed_world "[(4000, True, Some (Fin 91), None, None)]" "Some (Fin 90)" None None 1000 True]
    C2_triggered_evaluate_noop
    [of "checkAndTriggerShutdown 1000 True (Some (Fin 90)) None None armed_world"
        "[(4000, True, Some (Fin 91), None, None)]"]
    h t
  show ?thesis
    by (simp add: armed_world_eq run_checks_def check_cpu_def check_gpu_def check_mb_def
        init_locals_def shutdown_command_def)
qed

subsection \<open>C3: a failed shutdown command\<close>

text \<open>
  C3: when an evaluation trips an enabled, untriggered guard and the shutdown command
  fails, the call still ends triggered with the incident recorded (the same configuration
  object as after a successful command), the failure is logged, exactly one command was
  handed to the operating system, and no later evaluation issues it again.
\<close>

theorem C3_failed_shutdown_still_triggered:
  assumes "enabled (thermalConfig w)" and "\<not> triggered (thermalConfig w)"
    and "trips (thermalConfig w) cpu gpu mb"
  shows "triggered (thermalConfig (checkAndTriggerShutdown now False cpu gpu mb w)) \<and>
         triggeredAt (thermalConfig (checkAndTriggerShutdown now False cpu gpu mb w)) = Some now \<and>
         triggeredBy (thermalConfig (checkAndTriggerShutdown now False cpu gpu mb w)) =
           Some (reason (run_checks (thermalConfig w) cpu gpu mb)) \<and>
         triggeredTemp (thermalConfig (checkAndTriggerShutdown now False cpu gpu mb w)) =
           Some (triggerTemp (run_checks (thermalConfig w) cpu gpu mb)) \<and>
         thermalConfig (checkAndTriggerShutdown now False cpu gpu mb w) =
           thermalConfig (checkAndTriggerShutdown now True cpu gpu mb w) \<and>
         execs (checkAndTriggerShutdown now False cpu gpu mb w) =
           execs w @ [shutdown_command (thermalConfig w) (run_checks (thermalConfig w) cpu gpu mb)] \<and>
         console (checkAndTriggerShutdown now False cpu gpu mb w) =
           console w @ [Warn_threshold_exceeded, Error_shutdown_failed] \<and>
         evaluate_all ps (checkAndTriggerShutdown now False cpu gpu mb w) =
           checkAndTriggerShutdown now False cpu gpu mb w"
proof -
  have trig: "triggered (thermalConfig (checkAndTriggerShutdown now False cpu gpu mb w))"
    using assms by (simp add: check_fires)
  have later: "evaluate_all ps (checkAndTriggerShutdown now False cpu gpu mb w) =
      checkAndTriggerShutdown now False cpu gpu mb w"
    by (rule evaluate_all_triggered [OF trig])
  show ?thesis
    unfolding later using assms by (simp add: check_fires)
qed

text \<open>C3 at cpu = 90 on the enabled default policy, the command failing.\<close>

theorem C3_failed_shutdown_still_triggered_witness:
  "enabled (thermalConfig armed_world) \<and> \<not> triggered (thermalConfig armed_world) \<and>
   trips (thermalConfig armed_world) (Some (Fin 90)) None None \<and>
   checkAndTriggerShutdown 1000 False (Some (Fin 90)) None None armed_world =
     \<lparr>thermalConfig =
        \<lparr>enabled = True, cpuThreshold = Fin 80, gpuThreshold = Fin 85, mbThreshold = Fin 75,
         shutdownDelay = Fin 60, triggered = True, triggeredAt = Some 1000,
         triggeredBy = Some ''cpu'', triggeredTemp = Some (Fin 90)\<rparr>,
      execs = [Shutdown (Fin 60) ''cpu'' (Fin 90) (Fin 80)],
      console = [Warn_threshold_exceeded, Error_shutdown_failed]\<rparr> \<and>
   evaluate_all [(4000, True, Some (Fin 90), None, None)]
     (checkAndTriggerShutdown 1000 False (Some (Fin 90)) None None armed_world) =
     checkAndTriggerShutdown 1000 False (Some (Fin 90)) None None armed_world"
proof -
  have h: "enabled (thermalConfig armed_world)" "\<not> triggered (thermalConfig armed_world)"
    "trips (thermalConfig armed_world) (Some (Fin 90)) None None"
    by (simp_all add: armed_world_eq trips_def meets_def)
  have v: "checkAndTriggerShutdown 1000 False (Some (Fin 90)) None None armed_world =
     \<lparr>thermalConfig =
        \<lparr>enabled = True, cpuThreshold = Fin 80, gpuThreshold = Fin 85, mbThreshold = Fin 75,
         shutdownDelay = Fin 60, triggered = True, triggeredAt = Some 1000,
         triggeredBy = Some ''cpu'', triggeredTemp = Some (Fin 90)\<rparr>,
      execs = [Shutdown (Fin 60) ''cpu'' (Fin 90) (Fin 80)],
      console = [Warn_threshold_exceeded, Error_shutdown_failed]\<rparr>"
    by (simp add: armed_world_eq check_defs)
  from C3_failed_shutdown_still_triggered
    [OF h, of 1000 "[(4000, True, Some (Fin 90), None, None)]"]
  have later: "evaluate_all [(4000, True, Some (Fin 90), None, None)]
     (checkAndTriggerShutdown 1000 False (Some (Fin 90)) None None armed_world) =
     checkAndTriggerShutdown 1000 False (Some (Fin 90)) None None armed_world"
    by blast
  show ?thesis by (intro conjI h v later)
qed

subsection \<open>C4: the policy update\<close>

text \<open>
  C4, as stated, asks that every request with a parseable body succeeds. The body
  \<open>null\<close> parses, reading its first property throws, and the handler answers 400
  without touching the state.
\<close>

theorem C4_null_body_counterexample:
  "POST (Some JNull) initial_world = (Error400, initial_world) \<and>
   fst (POST (Some JNull) initial_world) \<noteq> Json200 (thermalConfig initial_world)"
  by (simp add: POST_null)

text \<open>
  C4, as amended: for every policy-update request whose body parses to a value other than
  \<open>null\<close>, each recognized field is validated on its own: \<open>enabled\<close> is applied when
  it is a boolean, a threshold when it is a number in [30, 120], \<open>shutdownDelay\<close> when
  it is a number in [10, 300]; any other value, or no value, leaves that field as it was.
  The incident fields are not touched, a member with an unrecognized name changes nothing,
  and the answer is always the full resulting configuration.
\<close>

theorem C4_update_fieldwise:
  assumes "body \<noteq> JNull"
  shows "POST (Some body) w =
           (Json200 (spec_update (thermalConfig w) body),
            w\<lparr>thermalConfig := spec_update (thermalConfig w) body\<rparr>) \<and>
         (k \<notin> recognized \<longrightarrow>
            POST (Some (JObj (ms @ (k, v) # ms'))) w = POST (Some (JObj (ms @ ms'))) w)"
  using assms by (simp add: POST_nonnull spec_update_unknown)

text \<open>
  C4 at the body \<open>{cpuThreshold: 80, gpuThreshold: 999, note: "x"}\<close> on a policy whose
  CPU threshold had been set to 70: the CPU threshold becomes 80, the GPU threshold stays
  85, the call succeeds.
\<close>

theorem C4_update_fieldwise_witness:
  "JObj [(''cpuThreshold'', JNum (Fin 80)), (''gpuThreshold'', JNum (Fin 999))] \<noteq> JNull \<and>
   ''note'' \<notin> recognized \<and>
   POST (Some (JObj [(''cpuThreshold'', JNum (Fin 80)), (''gpuThreshold'', JNum (Fin 999))]))
     (snd (POST (Some (JObj [(''cpuThreshold'', JNum (Fin 70))])) initial_world)) =
     (Json200
        \<lparr>enabled = False, cpuThreshold = Fin 80, gpuThreshold = Fin 85, mbThreshold = Fin 75,
         shutdownDelay = Fin 60, triggered = False, triggeredAt = None, triggeredBy = None,
         triggeredTemp = None\<rparr>,
      \<lparr>thermalConfig =
         \<lparr>enabled = False, cpuThreshold = Fin 80, gpuThreshold = Fin 85, mbThreshold = Fin 75,
          shutdownDelay = Fin 60, triggered = False, triggeredAt = None, triggeredBy = None,
          triggeredTemp = None\<rparr>,
       execs = [], console = []\<rparr>) \<and>
   POST (Some (JObj [(''cpuThreshold'', JNum (Fin 80)), (''note'', JStr ''x''),
                     (''gpuThreshold'', JNum (Fin 999))]))
     (snd (POST (Some (JObj [(''cpuThreshold'', JNum (Fin 70))])) initial_world)) =
   POST (Some (JObj [(''cpuThreshold'', JNum (Fin 80)), (''gpuThreshold'', JNum (Fin 999))]))
     (snd (POST (Some (JObj [(''cpuThreshold'', JNum (Fin 70))])) initial_world))"
proof -
  have n: "''note'' \<notin> recognized" by (simp add: recognized_def)
  have w0: "snd (POST (Some (JObj [(''cpuThreshold'', JNum (Fin 70))])) initial_world) =
      \<lparr>thermalConfig =
         \<lparr>enabled = False, cpuThreshold = Fin 70, gpuThreshold = Fin 85, mbThreshold = Fin 75,
          shutdownDelay = Fin 60, triggered = False, triggeredAt = None, triggeredBy = None,
          triggeredTemp = None\<rparr>,
       execs = [], console = []\<rparr>"
    by (simp add: POST_nonnull spec_update_def valid_or_def initial_world_def defaultConfig_def)
  from C4_update_fieldwise
    [of "JObj [(''cpuThreshold'', JNum (Fin 80)), (''gpuThreshold'', JNum (Fin 999))]"
        "snd (POST (Some (JObj [(''cpuThreshold'', JNum (Fin 70))])) initial_world)"
        "''note''" "[(''cpuThreshold'', JNum (Fin 80))]" "JStr ''x''"
        "[(''gpuThreshold'', JNum (Fin 999))]"] n
  show ?thesis
    by (simp add: w0 spec_update_def valid_or_def)
qed

subsection \<open>C5: cancelling\<close>

text \<open>
  C5, as stated, asks that after any cancel an evaluation with a temperature at or above
  its threshold starts a fresh incident. After the run trigger (cpu = 90), update
  \<open>{enabled: false}\<close>, cancel, a poll reading 95 on all three metrics meets every
  threshold and changes nothing: the guard stays untriggered and no command is issued.
\<close>

theorem C5_rearm_disabled_counterexample:
  "trips
     (thermalConfig (snd (DELETE True (snd (POST (Some (JObj [(''enabled'', JBool False)]))
        (checkAndTriggerShutdown 1000 True (Some (Fin 90)) None None armed_world))))))
     (Some (Fin 95)) (Some (Fin 95)) (Some (Fin 95)) \<and>
   \<not> triggered (thermalConfig
     (checkAndTriggerShutdown 7000 True (Some (Fin 95)) (Some (Fin 95)) (Some (Fin 95))
        (snd (DELETE True (snd (POST (Some (JObj [(''enabled'', JBool False)]))
          (checkAndTriggerShutdown 1000 True (Some (Fin 90)) None None armed_world))))))) \<and>
   checkAndTriggerShutdown 7000 True (Some (Fin 95)) (Some (Fin 95)) (Some (Fin 95))
     (snd (DELETE True (snd (POST (Some (JObj [(''enabled'', JBool False)]))
       (checkAndTriggerShutdown 1000 True (Some (Fin 90)) None None armed_world))))) =
     snd (DELETE True (snd (POST (Some (JObj [(''enabled'', JBool False)]))
       (checkAndTriggerShutdown 1000 True (Some (Fin 90)) None None armed_world))))"
proof -
  have v: "checkAndTriggerShutdown 1000 True (Some (Fin 90)) None None armed_world =
     \<lparr>thermalConfig =
        \<lparr>enabled = True, cpuThreshold = Fin 80, gpuThreshold = Fin 85, mbThreshold = Fin 75,
         shutdownDelay = Fin 60, triggered = True, triggeredAt = Some 1000,
         triggeredBy = Some ''cpu'', triggeredTemp = Some (Fin 90)\<rparr>,
      execs = [Shutdown (Fin 60) ''cpu'' (Fin 90) (Fin 80)],
      console = [Warn_threshold_exceeded, Warn_shutdown_issued]\<rparr>"
    by (simp add: armed_world_eq check_defs)
  show ?thesis
    unfolding v
    by (simp add: POST_nonnull spec_update_def valid_or_def DELETE_def Let_def check_defs)
qed

text \<open>
  C5, as amended: every cancel hands the abort command to the operating system; whether
  that command succeeds or fails, the answer is a success carrying the resulting
  configuration, in which the incident is cleared (\<open>triggered\<close> false, the three other
  fields null) and the policy fields are as before. After a cancel, while the policy is
  enabled, an evaluation with a metric at or above its threshold starts a fresh incident:
  it records the time of that evaluation, the joined tags of the tripped metrics and the
  last tripped temperature, and hands one new shutdown command to the operating system.
  While the policy is disabled, an evaluation after a cancel changes nothing.
\<close>

theorem C5_cancel_clears_and_rearms:
  "fst (DELETE abort_ok w) = Json200 (thermalConfig (snd (DELETE abort_ok w))) \<and>
   execs (snd (DELETE abort_ok w)) = execs w @ [Abort] \<and>
   thermalConfig (snd (DELETE abort_ok w)) =
     (thermalConfig w)\<lparr>triggered := False, triggeredAt := None, triggeredBy := None,
                        triggeredTemp := None\<rparr> \<and>
   thermalConfig (snd (DELETE False w)) = thermalConfig (snd (DELETE True w)) \<and>
   (enabled (thermalConfig w) \<and> trips (thermalConfig w) cpu gpu mb \<longrightarrow>
      triggered (thermalConfig
        (checkAndTriggerShutdown now ok cpu gpu mb (snd (DELETE abort_ok w)))) \<and>
      triggeredAt (thermalConfig
        (checkAndTriggerShutdown now ok cpu gpu mb (snd (DELETE abort_ok w)))) = Some now \<and>
      triggeredBy (thermalConfig
        (checkAndTriggerShutdown now ok cpu gpu mb (snd (DELETE abort_ok w)))) =
        Some (join ''+'' (map fst (tripped (thermalConfig w) cpu gpu mb))) \<and>
      shutdown_requests (checkAndTriggerShutdown now ok cpu gpu mb (snd (DELETE abort_ok w))) =
        shutdown_requests w + 1 \<and>
      (\<exists>x. fst (snd (last (tripped (thermalConfig w) cpu gpu mb))) = Some x \<and>
         thermalConfig (checkAndTriggerShutdown now ok cpu gpu mb (snd (DELETE abort_ok w))) =
           (thermalConfig w)\<lparr>triggered := True, triggeredAt := Some now,
              triggeredBy := Some (join ''+'' (map fst (tripped (thermalConfig w) cpu gpu mb))),
              triggeredTemp := Some x\<rparr> \<and>
         execs (checkAndTriggerShutdown now ok cpu gpu mb (snd (DELETE abort_ok w))) =
           execs w @
             [Abort,
              Shutdown (shutdownDelay (thermalConfig w))
                (join ''+'' (map fst (tripped (thermalConfig w) cpu gpu mb))) x
                (if meets cpu (cpuThreshold (thermalConfig w))
                 then cpuThreshold (thermalConfig w) else gpuThreshold (thermalConfig w))])) \<and>
   (\<not> enabled (thermalConfig w) \<longrightarrow>
      checkAndTriggerShutdown now ok cpu gpu mb (snd (DELETE abort_ok w)) =
        snd (DELETE abort_ok w))"
proof -
  let ?d = "snd (DELETE abort_ok w)"
  have cfg: "thermalConfig ?d =
     (thermalConfig w)\<lparr>triggered := False, triggeredAt := None, triggeredBy := None,
                        triggeredTemp := None\<rparr>"
    by (simp add: DELETE_def Let_def)
  have ex: "execs ?d = execs w @ [Abort]" by (simp add: DELETE_def Let_def)
  have resp: "fst (DELETE abort_ok w) = Json200 (thermalConfig ?d)"
    by (simp add: DELETE_def Let_def)
  have same: "thermalConfig (snd (DELETE False w)) = thermalConfig (snd (DELETE True w))"
    by (simp add: DELETE_def Let_def)
  have off: "checkAndTriggerShutdown now ok cpu gpu mb ?d = ?d"
    if "\<not> enabled (thermalConfig w)"
    using that by (intro check_noop) (simp add: cfg)
  have rearm: "triggered (thermalConfig (checkAndTriggerShutdown now ok cpu gpu mb ?d)) \<and>
      triggeredAt (thermalConfig (checkAndTriggerShutdown now ok cpu gpu mb ?d)) = Some now \<and>
      triggeredBy (thermalConfig (checkAndTriggerShutdown now ok cpu gpu mb ?d)) =
        Some (join ''+'' (map fst (tripped (thermalConfig w) cpu gpu mb))) \<and>
      shutdown_requests (checkAndTriggerShutdown now ok cpu gpu mb ?d) = shutdown_requests w + 1 \<and>
      (\<exists>x. fst (snd (last (tripped (thermalConfig w) cpu gpu mb))) = Some x \<and>
         thermalConfig (checkAndTriggerShutdown now ok cpu gpu mb ?d) =
           (thermalConfig w)\<lparr>triggered := True, triggeredAt := Some now,
              triggeredBy := Some (join ''+'' (map fst (tripped (thermalConfig w) cpu gpu mb))),
              triggeredTemp := Some x\<rparr> \<and>
         execs (checkAndTriggerShutdown now ok cpu gpu mb ?d) =
           execs w @
             [Abort,
              Shutdown (shutdownDelay (thermalConfig w))
                (join ''+'' (map fst (tripped (thermalConfig w) cpu gpu mb))) x
                (if meets cpu (cpuThreshold (thermalConfig w))
                 then cpuThreshold (thermalConfig w) else gpuThreshold (thermalConfig w))])"
    if a: "enabled (thermalConfig w) \<and> trips (thermalConfig w) cpu gpu mb"
  proof -
    have e: "enabled (thermalConfig ?d)" and n: "\<not> triggered (thermalConfig ?d)"
      using a by (simp_all add: cfg)
    have t: "trips (thermalConfig ?d) cpu gpu mb"
      using a by (simp add: cfg trips_def)
    have r: "tripped (thermalConfig ?d) cpu gpu mb = tripped (thermalConfig w) cpu gpu mb"
      by (simp add: cfg tripped_def metrics_def)
    from check_fires_explicit [OF e n t, of now ok] obtain x where
      x: "fst (snd (last (tripped (thermalConfig w) cpu gpu mb))) = Some x"
      and eq: "checkAndTriggerShutdown now ok cpu gpu mb ?d =
        ?d\<lparr>thermalConfig :=
             (thermalConfig ?d)\<lparr>triggered := True, triggeredAt := Some now,
                triggeredBy := Some (join ''+'' (map fst (tripped (thermalConfig w) cpu gpu mb))),
                triggeredTemp := Some x\<rparr>,
           execs := execs ?d @
             [Shutdown (shutdownDelay (thermalConfig ?d))
                (join ''+'' (map fst (tripped (thermalConfig w) cpu gpu mb))) x
                (if meets cpu (cpuThreshold (thermalConfig ?d))
                 then cpuThreshold (thermalConfig ?d) else gpuThreshold (thermalConfig ?d))],
           console := console ?d @
             [Warn_threshold_exceeded,
              if ok then Warn_shutdown_issued else Error_shutdown_failed]\<rparr>"
      unfolding r by blast
    show ?thesis
      unfolding eq using x by (simp add: cfg ex shutdown_requests_def)
  qed
  from resp ex cfg same rearm off show ?thesis by blast
qed

text \<open>
  The amended C5 on the scenario trigger (cpu = 90), cancel with a failing abort command,
  evaluate (cpu = 90) again.
\<close>

theorem C5_cancel_clears_and_rearms_witness:
  "enabled (thermalConfig (checkAndTriggerShutdown 1000 True (Some (Fin 90)) None None armed_world)) \<and>
   trips (thermalConfig (checkAndTriggerShutdown 1000 True (Some (Fin 90)) None None armed_world))
     (Some (Fin 90)) None None \<and>
   thermalConfig (snd (DELETE False
     (checkAndTriggerShutdown 1000 True (Some (Fin 90)) None None armed_world))) =
     thermalConfig armed_world \<and>
   fst (DELETE False
     (checkAndTriggerShutdown 1000 True (Some (Fin 90)) None None armed_world)) =
     Json200 (thermalConfig armed_world) \<and>
   triggeredAt (thermalConfig (checkAndTriggerShutdown 7000 True (Some (Fin 90)) None None
     (snd (DELETE False
       (checkAndTriggerShutdown 1000 True (Some (Fin 90)) None None armed_world))))) =
     Some 7000 \<and>
   triggered (thermalConfig (checkAndTriggerShutdown 7000 True (Some (Fin 90)) None None
     (snd (DELETE False
       (checkAndTriggerShutdown 1000 True (Some (Fin 90)) None None armed_world))))) \<and>
   execs (checkAndTriggerShutdown 7000 True (Some (Fin 90)) None None
     (snd (DELETE False
       (checkAndTriggerShutdown 1000 True (Some (Fin 90)) None None armed_world)))) =
     [Shutdown (Fin 60) ''cpu'' (Fin 90) (Fin 80), Abort,
      Shutdown (Fin 60) ''cpu'' (Fin 90) (Fin 80)]"
proof -
  let ?w = "checkAndTriggerShutdown 1000 True (Some (Fin 90)) None None armed_world"
  have v: "?w =
     \<lparr>thermalConfig =
        \<lparr>enabled = True, cpuThreshold = Fin 80, gpuThreshold = Fin 85, mbThreshold = Fin 75,
         shutdownDelay = Fin 60, triggered = True, triggeredAt = Some 1000,
         triggeredBy = Some ''cpu'', triggeredTemp = Some (Fin 90)\<rparr>,
      execs = [Shutdown (Fin 60) ''cpu'' (Fin 90) (Fin 80)],
      console = [Warn_threshold_exceeded, Warn_shutdown_issued]\<rparr>"
    by (simp add: armed_world_eq check_defs)
  have h: "enabled (thermalConfig ?w) \<and> trips (thermalConfig ?w) (Some (Fin 90)) None None"
    unfolding v by (simp add: trips_def meets_def)
  have c: "(thermalConfig ?w)\<lparr>triggered := False, triggeredAt := None, triggeredBy := None,
                        triggeredTemp := None\<rparr> = thermalConfig armed_world"
    unfolding v by (simp add: armed_world_eq)
  have l: "fst (snd (last (tripped (thermalConfig ?w) (Some (Fin 90)) None None))) = Some (Fin 90)"
    and j: "join ''+'' (map fst (tripped (thermalConfig ?w) (Some (Fin 90)) None None)) = ''cpu''"
    and p: "shutdownDelay (thermalConfig ?w) = Fin 60" "cpuThreshold (thermalConfig ?w) = Fin 80"
    and q: "execs ?w = [Shutdown (Fin 60) ''cpu'' (Fin 90) (Fin 80)]"
    unfolding v by (simp_all add: tripped_def metrics_def meets_def)
  from C5_cancel_clears_and_rearms [of False ?w "Some (Fin 90)" None None 7000 True] h c
  show ?thesis unfolding l j p q by (simp add: meets_def)
qed

subsection \<open>C6: the comparison is inclusive\<close>

text \<open>
  C6, as stated, asks that a reading equal to its threshold trips the guard in every
  evaluation. On the default configuration, whose policy is disabled, cpu = 80 equals the
  CPU threshold 80 and the evaluation changes nothing: no incident, no command. On the
  guard already triggered by cpu = 90, gpu = 85 equals the GPU threshold 85 and the
  evaluation changes nothing either: the incident still names the CPU alone and no second
  command is issued.
\<close>

theorem C6_disabled_counterexample:
  "js_eq (Fin 80) (cpuThreshold (thermalConfig initial_world)) \<and>
   checkAndTriggerShutdown 1000 True (Some (Fin 80)) None None initial_world = initial_world \<and>
   \<not> triggered (thermalConfig
     (checkAndTriggerShutdown 1000 True (Some (Fin 80)) None None initial_world)) \<and>
   execs (checkAndTriggerShutdown 1000 True (Some (Fin 80)) None None initial_world) = [] \<and>
   js_eq (Fin 85) (gpuThreshold (thermalConfig
     (checkAndTriggerShutdown 1000 True (Some (Fin 90)) None None armed_world))) \<and>
   checkAndTriggerShutdown 4000 True None (Some (Fin 85)) None
     (checkAndTriggerShutdown 1000 True (Some (Fin 90)) None None armed_world) =
     checkAndTriggerShutdown 1000 True (Some (Fin 90)) None None armed_world \<and>
   triggeredBy (thermalConfig (checkAndTriggerShutdown 4000 True None (Some (Fin 85)) None
     (checkAndTriggerShutdown 1000 True (Some (Fin 90)) None None armed_world))) =
     Some ''cpu''"
  by (simp add: initial_world_def defaultConfig_def armed_world_eq js_eq_def check_defs)

text \<open>
  C6, as amended: in every evaluation on an enabled, not yet triggered guard, a present
  metric (cpu, gpu or mb, whatever the other two read) whose temperature equals its
  threshold is among the tripped metrics, and the guard trips: the call records the
  incident (\<open>triggered\<close>, the time of the call, the joined tags of the tripped metrics,
  the last tripped temperature), hands exactly one shutdown command to the operating
  system and logs it, and changes nothing else.
\<close>

theorem C6_threshold_inclusive:
  assumes "enabled (thermalConfig w)" and "\<not> triggered (thermalConfig w)"
    and "(tag, Some t, threshold) \<in> set (metrics (thermalConfig w) cpu gpu mb)"
    and "js_eq t threshold"
  shows "(tag, Some t, threshold) \<in> set (tripped (thermalConfig w) cpu gpu mb) \<and>
         (\<exists>x. fst (snd (last (tripped (thermalConfig w) cpu gpu mb))) = Some x \<and>
            checkAndTriggerShutdown now ok cpu gpu mb w =
              w\<lparr>thermalConfig :=
                  (thermalConfig w)\<lparr>triggered := True, triggeredAt := Some now,
                     triggeredBy :=
                       Some (join ''+'' (map fst (tripped (thermalConfig w) cpu gpu mb))),
                     triggeredTemp := Some x\<rparr>,
                execs := execs w @
                  [Shutdown (shutdownDelay (thermalConfig w))
                     (join ''+'' (map fst (tripped (thermalConfig w) cpu gpu mb))) x
                     (if meets cpu (cpuThreshold (thermalConfig w))
                      then cpuThreshold (thermalConfig w) else gpuThreshold (thermalConfig w))],
                console := console w @
                  [Warn_threshold_exceeded,
                   if ok then Warn_shutdown_issued else Error_shutdown_failed]\<rparr>)"
proof -
  from assms(4) have "js_ge t threshold" by (rule js_eq_ge)
  with assms(3) have
    m: "(tag, Some t, threshold) \<in> set (tripped (thermalConfig w) cpu gpu mb)"
    and tr: "trips (thermalConfig w) cpu gpu mb"
    by (simp_all add: metric_trips)
  from m check_fires_explicit [OF assms(1) assms(2) tr, of now ok]
  show ?thesis by (rule conjI)
qed

text \<open>
  The amended C6 at cpu = 80 against the default CPU threshold 80, and at mb = 75 against
  the default motherboard threshold 75 with the CPU below its threshold.
\<close>

theorem C6_threshold_inclusive_witness:
  "enabled (thermalConfig armed_world) \<and> \<not> triggered (thermalConfig armed_world) \<and>
   (''cpu'', Some (Fin 80), Fin 80) \<in> set (metrics (thermalConfig armed_world)
      (Some (Fin 80)) None None) \<and>
   (''mb'', Some (Fin 75), Fin 75) \<in> set (metrics (thermalConfig armed_world)
      (Some (Fin 79)) None (Some (Fin 75))) \<and>
   js_eq (Fin 80) (Fin 80) \<and> js_eq (Fin 75) (Fin 75) \<and>
   checkAndTriggerShutdown 1000 True (Some (Fin 80)) None None armed_world =
     \<lparr>thermalConfig =
        \<lparr>enabled = True, cpuThreshold = Fin 80, gpuThreshold = Fin 85, mbThreshold = Fin 75,
         shutdownDelay = Fin 60, triggered = True, triggeredAt = Some 1000,
         triggeredBy = Some ''cpu'', triggeredTemp = Some (Fin 80)\<rparr>,
      execs = [Shutdown (Fin 60) ''cpu'' (Fin 80) (Fin 80)],
      console = [Warn_threshold_exceeded, Warn_shutdown_issued]\<rparr> \<and>
   checkAndTriggerShutdown 1000 True (Some (Fin 79)) None (Some (Fin 75)) armed_world =
     \<lparr>thermalConfig =
        \<lparr>enabled = True, cpuThreshold = Fin 80, gpuThreshold = Fin 85, mbThreshold = Fin 75,
         shutdownDelay = Fin 60, triggered = True, triggeredAt = Some 1000,
         triggeredBy = Some ''mb'', triggeredTemp = Some (Fin 75)\<rparr>,
      execs = [Shutdown (Fin 60) ''mb'' (Fin 75) (Fin 85)],
      console = [Warn_threshold_exceeded, Warn_shutdown_issued]\<rparr>"
proof -
  have h: "enabled (thermalConfig armed_world)" "\<not> triggered (thermalConfig armed_world)"
    by (simp_all add: armed_world_eq)
  have m1: "(''cpu'', Some (Fin 80), Fin 80) \<in> set (metrics (thermalConfig armed_world)
      (Some (Fin 80)) None None)"
    and m2: "(''mb'', Some (Fin 75), Fin 75) \<in> set (metrics (thermalConfig armed_world)
      (Some (Fin 79)) None (Some (Fin 75)))"
    by (simp_all add: armed_world_eq metrics_def)
  have e1: "js_eq (Fin 80) (Fin 80)" and e2: "js_eq (Fin 75) (Fin 75)"
    by (simp_all add: js_eq_def)
  have r1: "checkAndTriggerShutdown 1000 True (Some (Fin 80)) None None armed_world =
     \<lparr>thermalConfig =
        \<lparr>enabled = True, cpuThreshold = Fin 80, gpuThreshold = Fin 85, mbThreshold = Fin 75,
         shutdownDelay = Fin 60, triggered = True, triggeredAt = Some 1000,
         triggeredBy = Some ''cpu'', triggeredTemp = Some (Fin 80)\<rparr>,
      execs = [Shutdown (Fin 60) ''cpu'' (Fin 80) (Fin 80)],
      console = [Warn_threshold_exceeded, Warn_shutdown_issued]\<rparr>"
    using C6_threshold_inclusive [OF h m1 e1, of 1000 True]
    by (auto simp: armed_world_eq tripped_def metrics_def meets_def)
  have r2: "checkAndTriggerShutdown 1000 True (Some (Fin 79)) None (Some (Fin 75)) armed_world =
     \<lparr>thermalConfig =
        \<lparr>enabled = True, cpuThreshold = Fin 80, gpuThreshold = Fin 85, mbThreshold = Fin 75,
         shutdownDelay = Fin 60, triggered = True, triggeredAt = Some 1000,
         triggeredBy = Some ''mb'', triggeredTemp = Some (Fin 75)\<rparr>,
      execs = [Shutdown (Fin 60) ''mb'' (Fin 75) (Fin 85)],
      console = [Warn_threshold_exceeded, Warn_shutdown_issued]\<rparr>"
    using C6_threshold_inclusive [OF h m2 e2, of 1000 True]
    by (auto simp: armed_world_eq tripped_def metrics_def meets_def)
  show ?thesis by (intro conjI h m1 m2 e1 e2 r1 r2)
qed

subsection \<open>C7: no trip, no effect\<close>

text \<open>
  C7: when the policy is disabled, or no present metric is at or above its threshold, an
  evaluation leaves the whole process state unchanged: the configuration object, the
  commands issued and the console. An absent metric never meets a threshold, so a tick
  with no reading at all is such an evaluation.
\<close>

theorem C7_no_trip_or_disabled_noop:
  "(\<not> enabled (thermalConfig w) \<or> \<not> trips (thermalConfig w) cpu gpu mb \<longrightarrow>
      checkAndTriggerShutdown now ok cpu gpu mb w = w) \<and>
   \<not> meets None threshold \<and>
   checkAndTriggerShutdown now ok None None None w = w"
proof -
  have "\<not> trips (thermalConfig w) None None None"
    by (simp add: trips_def meets_def)
  then have "checkAndTriggerShutdown now ok None None None w = w"
    by (simp add: check_noop)
  then show ?thesis
    by (auto simp: check_noop meets_def)
qed

text \<open>
  C7 at a disabled policy with cpu = 95, and at an enabled policy with cpu = 79.9 and the
  other two metrics absent.
\<close>

theorem C7_no_trip_or_disabled_noop_witness:
  "\<not> enabled (thermalConfig initial_world) \<and>
   checkAndTriggerShutdown 1000 True (Some (Fin 95)) None None initial_world = initial_world \<and>
   \<not> trips (thermalConfig armed_world) (Some (Fin 79.9)) None None \<and>
   checkAndTriggerShutdown 1000 True (Some (Fin 79.9)) None None armed_world = armed_world"
proof -
  have d: "\<not> enabled (thermalConfig initial_world)"
    by (simp add: initial_world_def defaultConfig_def)
  have n: "\<not> trips (thermalConfig armed_world) (Some (Fin 79.9)) None None"
    by (simp add: armed_world_eq trips_def meets_def)
  from C7_no_trip_or_disabled_noop [of initial_world "Some (Fin 95)" None None 1000 True]
    C7_no_trip_or_disabled_noop [of armed_world "Some (Fin 79.9)" None None 1000 True] d n
  show ?thesis by blast
qed

subsection \<open>C8: the reason string\<close>

text \<open>
  C8: in every evaluation that trips an enabled, untriggered guard, the incident's
  \<open>triggeredBy\<close> is the tags of the metrics that tripped in that tick, in the order
  cpu, gpu, mb, joined by \<open>+\<close>.
\<close>

theorem C8_triggeredBy_joined_tags:
  assumes "enabled (thermalConfig w)" and "\<not> triggered (thermalConfig w)"
    and "trips (thermalConfig w) cpu gpu mb"
  shows "triggeredBy (thermalConfig (checkAndTriggerShutdown now ok cpu gpu mb w)) =
           Some (join ''+'' (map fst (tripped (thermalConfig w) cpu gpu mb)))"
  using assms by (simp add: check_fires reason_run_checks)

text \<open>C8 at cpu = 90 and gpu = 95 on the enabled default policy, and at all three tripping.\<close>

theorem C8_triggeredBy_joined_tags_witness:
  "enabled (thermalConfig armed_world) \<and> \<not> triggered (thermalConfig armed_world) \<and>
   trips (thermalConfig armed_world) (Some (Fin 90)) (Some (Fin 95)) None \<and>
   trips (thermalConfig armed_world) (Some (Fin 90)) (Some (Fin 95)) (Some (Fin 75)) \<and>
   triggeredBy (thermalConfig
     (checkAndTriggerShutdown 0 True (Some (Fin 90)) (Some (Fin 95)) None armed_world))
     = Some ''cpu+gpu'' \<and>
   triggeredBy (thermalConfig
     (checkAndTriggerShutdown 0 True (Some (Fin 90)) (Some (Fin 95)) (Some (Fin 75)) armed_world))
     = Some ''cpu+gpu+mb''"
proof -
  have h: "enabled (thermalConfig armed_world)" "\<not> triggered (thermalConfig armed_world)"
    by (simp_all add: armed_world_eq)
  have t2: "trips (thermalConfig armed_world) (Some (Fin 90)) (Some (Fin 95)) None"
    and t3: "trips (thermalConfig armed_world) (Some (Fin 90)) (Some (Fin 95)) (Some (Fin 75))"
    by (simp_all add: armed_world_eq trips_def meets_def)
  from C8_triggeredBy_joined_tags [OF h t2, of 0 True]
    C8_triggeredBy_joined_tags [OF h t3, of 0 True] h t2 t3
  show ?thesis
    by (simp add: armed_world_eq tripped_def metrics_def meets_def)
qed

subsection \<open>C9: disabling a triggered guard\<close>

text \<open>
  C9: while the guard is triggered, the update \<open>{enabled: false}\<close> changes the
  \<open>enabled\<close> flag and nothing else: the incident fields stay, no command is issued, and
  the answer is the resulting configuration. The same holds for the incident fields and
  the commands under any body whose \<open>enabled\<close> member is \<open>false\<close>. Afterwards
  evaluations do nothing.
\<close>

theorem C9_disable_keeps_incident:
  assumes "triggered (thermalConfig w)"
  shows "POST (Some (JObj [(''enabled'', JBool False)])) w =
           (Json200 ((thermalConfig w)\<lparr>enabled := False\<rparr>),
            w\<lparr>thermalConfig := (thermalConfig w)\<lparr>enabled := False\<rparr>\<rparr>) \<and>
         (member body ''enabled'' = Some (JBool False) \<longrightarrow>
            \<not> enabled (thermalConfig (snd (POST (Some body) w))) \<and>
            triggered (thermalConfig (snd (POST (Some body) w))) \<and>
            triggeredAt (thermalConfig (snd (POST (Some body) w))) = triggeredAt (thermalConfig w) \<and>
            triggeredBy (thermalConfig (snd (POST (Some body) w))) = triggeredBy (thermalConfig w) \<and>
            triggeredTemp (thermalConfig (snd (POST (Some body) w))) =
              triggeredTemp (thermalConfig w) \<and>
            execs (snd (POST (Some body) w)) = execs w \<and>
            evaluate_all ps (snd (POST (Some body) w)) = snd (POST (Some body) w))"
proof (intro conjI impI)
  show "POST (Some (JObj [(''enabled'', JBool False)])) w =
           (Json200 ((thermalConfig w)\<lparr>enabled := False\<rparr>),
            w\<lparr>thermalConfig := (thermalConfig w)\<lparr>enabled := False\<rparr>\<rparr>)"
    by (simp add: POST_nonnull spec_update_def valid_or_def)
next
  assume m: "member body ''enabled'' = Some (JBool False)"
  then have nn: "body \<noteq> JNull" by auto
  show "\<not> enabled (thermalConfig (snd (POST (Some body) w)))"
    using m by (simp add: POST_nonnull [OF nn] spec_update_def)
  show tr: "triggered (thermalConfig (snd (POST (Some body) w)))"
    using assms by (simp add: POST_frame)
  show "evaluate_all ps (snd (POST (Some body) w)) = snd (POST (Some body) w)"
    by (rule evaluate_all_triggered [OF tr])
qed (simp_all add: POST_frame)

text \<open>C9 on the incident of cpu = 90 at time 1000.\<close>

theorem C9_disable_keeps_incident_witness:
  "triggered (thermalConfig
     (checkAndTriggerShutdown 1000 True (Some (Fin 90)) None None armed_world)) \<and>
   POST (Some (JObj [(''enabled'', JBool False)]))
     (checkAndTriggerShutdown 1000 True (Some (Fin 90)) None None armed_world) =
     (Json200
        \<lparr>enabled = False, cpuThreshold = Fin 80, gpuThreshold = Fin 85, mbThreshold = Fin 75,
         shutdownDelay = Fin 60, triggered = True, triggeredAt = Some 1000,
         triggeredBy = Some ''cpu'', triggeredTemp = Some (Fin 90)\<rparr>,
      \<lparr>thermalConfig =
         \<lparr>enabled = False, cpuThreshold = Fin 80, gpuThreshold = Fin 85, mbThreshold = Fin 75,
          shutdownDelay = Fin 60, triggered = True, triggeredAt = Some 1000,
          triggeredBy = Some ''cpu'', triggeredTemp = Some (Fin 90)\<rparr>,
       execs = [Shutdown (Fin 60) ''cpu'' (Fin 90) (Fin 80)],
       console = [Warn_threshold_exceeded, Warn_shutdown_issued]\<rparr>)"
proof -
  let ?w = "checkAndTriggerShutdown 1000 True (Some (Fin 90)) None None armed_world"
  have v: "?w =
     \<lparr>thermalConfig =
        \<lparr>enabled = True, cpuThreshold = Fin 80, gpuThreshold = Fin 85, mbThreshold = Fin 75,
         shutdownDelay = Fin 60, triggered = True, triggeredAt = Some 1000,
         triggeredBy = Some ''cpu'', triggeredTemp = Some (Fin 90)\<rparr>,
      execs = [Shutdown (Fin 60) ''cpu'' (Fin 90) (Fin 80)],
      console = [Warn_threshold_exceeded, Warn_shutdown_issued]\<rparr>"
    by (simp add: armed_world_eq check_defs)
  have t: "triggered (thermalConfig ?w)" unfolding v by simp
  from C9_disable_keeps_incident [OF t] have
    "POST (Some (JObj [(''enabled'', JBool False)])) ?w =
       (Json200 ((thermalConfig ?w)\<lparr>enabled := False\<rparr>),
        ?w\<lparr>thermalConfig := (thermalConfig ?w)\<lparr>enabled := False\<rparr>\<rparr>)"
    by blast
  then have "POST (Some (JObj [(''enabled'', JBool False)])) ?w =
     (Json200
        \<lparr>enabled = False, cpuThreshold = Fin 80, gpuThreshold = Fin 85, mbThreshold = Fin 75,
         shutdownDelay = Fin 60, triggered = True, triggeredAt = Some 1000,
         triggeredBy = Some ''cpu'', triggeredTemp = Some (Fin 90)\<rparr>,
      \<lparr>thermalConfig =
         \<lparr>enabled = False, cpuThreshold = Fin 80, gpuThreshold = Fin 85, mbThreshold = Fin 75,
          shutdownDelay = Fin 60, triggered = True, triggeredAt = Some 1000,
          triggeredBy = Some ''cpu'', triggeredTemp = Some (Fin 90)\<rparr>,
       execs = [Shutdown (Fin 60) ''cpu'' (Fin 90) (Fin 80)],
       console = [Warn_threshold_exceeded, Warn_shutdown_issued]\<rparr>)"
    unfolding v by simp
  with t show ?thesis by (intro conjI)
qed

subsection \<open>C10: the incident is whole or absent\<close>

text \<open>
  C10: \<open>triggered\<close> is false exactly when \<open>triggeredAt\<close>, \<open>triggeredBy\<close> and
  \<open>triggeredTemp\<close> are all null. This holds of the default configuration and after every
  cancel, and every evaluation and every policy update preserves it. A policy update
  leaves each of the four incident fields as it was, whatever the request is: no body,
  \<open>null\<close>, or a body with members named after the incident fields.
\<close>

theorem C10_incident_invariant:
  "incident_inv defaultConfig \<and>
   incident_inv (thermalConfig initial_world) \<and>
   (incident_inv (thermalConfig w) \<longrightarrow>
      incident_inv (thermalConfig (checkAndTriggerShutdown now ok cpu gpu mb w))) \<and>
   (incident_inv (thermalConfig w) \<longrightarrow>
      incident_inv (thermalConfig (snd (POST request w)))) \<and>
   incident_inv (thermalConfig (snd (DELETE abort_ok w))) \<and>
   (incident_inv (thermalConfig w) \<longrightarrow> incident_inv (thermalConfig (snd (GET w)))) \<and>
   triggered (thermalConfig (snd (POST request w))) = triggered (thermalConfig w) \<and>
   triggeredAt (thermalConfig (snd (POST request w))) = triggeredAt (thermalConfig w) \<and>
   triggeredBy (thermalConfig (snd (POST request w))) = triggeredBy (thermalConfig w) \<and>
   triggeredTemp (thermalConfig (snd (POST request w))) = triggeredTemp (thermalConfig w)"
proof -
  have init: "incident_inv defaultConfig"
    by (simp add: incident_inv_def defaultConfig_def)
  have eval: "incident_inv (thermalConfig (checkAndTriggerShutdown now ok cpu gpu mb w))"
    if i: "incident_inv (thermalConfig w)"
  proof (cases "enabled (thermalConfig w) \<and> \<not> triggered (thermalConfig w) \<and>
      trips (thermalConfig w) cpu gpu mb")
    case True
    then show ?thesis by (simp add: check_fires incident_inv_def)
  next
    case False
    then have "checkAndTriggerShutdown now ok cpu gpu mb w = w"
      by (intro check_noop) blast
    with i show ?thesis by simp
  qed
  have post: "incident_inv (thermalConfig (snd (POST request w)))"
    if "incident_inv (thermalConfig w)"
    using that by (simp add: incident_inv_def POST_frame)
  have del: "incident_inv (thermalConfig (snd (DELETE abort_ok w)))"
    by (simp add: DELETE_def Let_def incident_inv_def)
  show ?thesis
    using init eval post del by (simp add: POST_frame GET_def initial_world_def)
qed

text \<open>
  C10 on a run: enable, trip at cpu = 90, send an update whose members are named after
  the incident fields, cancel.
\<close>

theorem C10_incident_invariant_witness:
  "incident_inv (thermalConfig armed_world) \<and>
   incident_inv (thermalConfig
     (checkAndTriggerShutdown 1000 True (Some (Fin 90)) None None armed_world)) \<and>
   incident_inv (thermalConfig (snd (POST
     (Some (JObj [(''triggered'', JBool False), (''triggeredAt'', JNull),
                  (''triggeredBy'', JStr ''gpu''), (''triggeredTemp'', JNum (Fin 1))]))
     (checkAndTriggerShutdown 1000 True (Some (Fin 90)) None None armed_world)))) \<and>
   triggeredBy (thermalConfig (snd (POST
     (Some (JObj [(''triggered'', JBool False), (''triggeredAt'', JNull),
                  (''triggeredBy'', JStr ''gpu''), (''triggeredTemp'', JNum (Fin 1))]))
     (checkAndTriggerShutdown 1000 True (Some (Fin 90)) None None armed_world)))) =
     Some ''cpu''"
proof -
  let ?w = "checkAndTriggerShutdown 1000 True (Some (Fin 90)) None None armed_world"
  let ?r = "Some (JObj [(''triggered'', JBool False), (''triggeredAt'', JNull),
                  (''triggeredBy'', JStr ''gpu''), (''triggeredTemp'', JNum (Fin 1))])"
  have a: "incident_inv (thermalConfig armed_world)"
    by (simp add: armed_world_eq incident_inv_def)
  have b: "triggeredBy (thermalConfig ?w) = Some ''cpu''"
    by (simp add: armed_world_eq check_defs)
  from C10_incident_invariant [of armed_world 1000 True "Some (Fin 90)" None None]
    a have c: "incident_inv (thermalConfig ?w)" by blast
  from C10_incident_invariant [of ?w _ _ _ _ _ ?r] c
  have d: "incident_inv (thermalConfig (snd (POST ?r ?w)))"
    and e: "triggeredBy (thermalConfig (snd (POST ?r ?w))) = triggeredBy (thermalConfig ?w)"
    by blast+
  from a c d e b show ?thesis by simp
qed

end
